theory Spec2Isabelle
  imports Main
begin

section \<open>JavaScript values and string primitives\<close>

text \<open>
  A JavaScript string is a sequence of UTF-16 code units. It is modelled as a \<open>string\<close>
  (a list of 8-bit characters), each character standing for the code unit of the same
  number, so the model covers the strings whose code units are below 256. The characters
  the code inspects (\<open>/\<close>, digits, signs, white space) are all in that range.

  Numbers that index an array or label a status are integers here; \<open>NaN\<close> is kept apart,
  and \<open>-0\<close> is identified with \<open>0\<close> (both select element 0 of an array).
\<close>

datatype js_value =
    JUndefined
  | JNull
  | JNum int
  | JStr string
  | JArr "js_value list"
  | JObj "(string \<times> js_value) list"

datatype js_number = NaN | Num int

text \<open>\<open>String.prototype.slice(start, end)\<close>; \<open>None\<close> is an omitted \<open>end\<close>.\<close>

definition slice :: "string \<Rightarrow> int \<Rightarrow> int option \<Rightarrow> string" where
  "slice s start end =
     (let len = int (length s);
          from = (if start < 0 then max (len + start) 0 else min start len);
          fin = (case end of None \<Rightarrow> len | Some e \<Rightarrow> e);
          to = (if fin < 0 then max (len + fin) 0 else min fin len)
      in if from \<ge> to then [] else take (nat (to - from)) (drop (nat from) s))"

text \<open>\<open>String.prototype.toUpperCase\<close> on the letters \<open>a\<close> to \<open>z\<close>; the code applies it
  to the values of \<open>EHttpMethod\<close> only.\<close>

definition toUpperCase :: "string \<Rightarrow> string" where
  "toUpperCase s =
     map (\<lambda>c. case map_of (zip ''abcdefghijklmnopqrstuvwxyz'' ''ABCDEFGHIJKLMNOPQRSTUVWXYZ'') c of
                None \<Rightarrow> c | Some u \<Rightarrow> u) s"

text \<open>Decimal rendering of an integer, as a template literal renders an integral number.
  \<open>digit_char\<close> is only applied to numbers below 10.\<close>

definition digit_char :: "nat \<Rightarrow> char" where
  "digit_char n = ''0123456789'' ! n"

function nat_toString :: "nat \<Rightarrow> string" where
  "nat_toString n = (if n < 10 then [digit_char n] else nat_toString (n div 10) @ [digit_char (n mod 10)])"
  by pat_completeness auto
termination
  by (relation "measure id") auto

declare nat_toString.simps [simp del]

definition number_toString :: "int \<Rightarrow> string" where
  "number_toString i = (if i < 0 then ''-'' @ nat_toString (nat (- i)) else nat_toString (nat i))"

text \<open>
  The global \<open>parseInt(string, radix)\<close>: leading white space is dropped, one sign is read,
  for radix 16 (or 0) a \<open>0x\<close> prefix is skipped, and the longest prefix of digits of the radix
  is the value; no digit at all, or a radix outside 2..36, gives \<open>NaN\<close>. The radix is taken
  to be an integer already. The white space below 256 is TAB, LF, VT, FF, CR, SP and NBSP.
\<close>

definition isWhiteSpace :: "char \<Rightarrow> bool" where
  "isWhiteSpace c = ((of_char c :: nat) \<in> {9, 10, 11, 12, 13, 32, 160})"

definition digitValue :: "char \<Rightarrow> nat option" where
  "digitValue c =
     (let n = (of_char c :: nat) in
      if 48 \<le> n \<and> n \<le> 57 then Some (n - 48)
      else if 97 \<le> n \<and> n \<le> 122 then Some (n - 87)
      else if 65 \<le> n \<and> n \<le> 90 then Some (n - 55)
      else None)"

definition isRadixDigit :: "nat \<Rightarrow> char \<Rightarrow> bool" where
  "isRadixDigit R c = (case digitValue c of None \<Rightarrow> False | Some v \<Rightarrow> v < R)"

definition radixValue :: "nat \<Rightarrow> string \<Rightarrow> nat" where
  "radixValue R Z = foldl (\<lambda>acc c. acc * R + the (digitValue c)) 0 Z"

definition parseInt :: "string \<Rightarrow> int \<Rightarrow> js_number" where
  "parseInt string radix =
     (let S = dropWhile isWhiteSpace string;
          sign = (if S \<noteq> [] \<and> hd S = CHR ''-'' then - 1 else (1::int));
          S1 = (if S \<noteq> [] \<and> (hd S = CHR ''+'' \<or> hd S = CHR ''-'') then tl S else S)
      in if radix \<noteq> 0 \<and> (radix < 2 \<or> radix > 36) then NaN
         else
           (let stripPrefix = (radix = 0 \<or> radix = 16);
                R0 = (if radix = 0 then 10 else nat radix);
                hasPrefix = (stripPrefix \<and> (take 2 S1 = ''0x'' \<or> take 2 S1 = ''0X''));
                S2 = (if hasPrefix then drop 2 S1 else S1);
                R = (if hasPrefix then 16 else R0);
                Z = takeWhile (isRadixDigit R) S2
            in if Z = [] then NaN else Num (sign * int (radixValue R Z))))"

text \<open>Reading \<open>array[n]\<close>: an index outside the array (or \<open>NaN\<close>) names no element, and the
  read gives \<open>undefined\<close>; it never throws.\<close>

definition array_get :: "js_value list \<Rightarrow> js_number \<Rightarrow> js_value" where
  "array_get xs n =
     (case n of NaN \<Rightarrow> JUndefined
      | Num i \<Rightarrow> if 0 \<le> i \<and> i < int (length xs) then xs ! nat i else JUndefined)"

text \<open>An \<open>Error\<close> thrown with its message.\<close>

datatype error = Error string

section \<open>Types (types.ts)\<close>

datatype EHttpStatus = OK | BAD_REQUEST

definition EHttpStatus_value :: "EHttpStatus \<Rightarrow> int" where
  "EHttpStatus_value s = (case s of OK \<Rightarrow> 200 | BAD_REQUEST \<Rightarrow> 400)"

datatype EHttpMethod = GET | POST | PUT | PATCH | DELETE

definition EHttpMethod_value :: "EHttpMethod \<Rightarrow> string" where
  "EHttpMethod_value m =
     (case m of GET \<Rightarrow> ''get'' | POST \<Rightarrow> ''post'' | PUT \<Rightarrow> ''put''
      | PATCH \<Rightarrow> ''patch'' | DELETE \<Rightarrow> ''delete'')"

record RouteDefinition =
  path :: string
  requestMethod :: EHttpMethod
  methodName :: string

text \<open>
  Modelled from the spec: the declarations of \<open>EInjectionScope\<close>, \<open>ControllerMetadata\<close>,
  \<open>ExecutionResult\<close> and \<open>Newable\<close> (types.ts) are missing. Their shape follows the
  specification's data model (the three injection scopes; a controller descriptor with a
  prefix and an ordered sequence of routes; a result with a body and a status) and the uses
  in the router and the application (\<open>meta.prefix\<close>, \<open>meta.routes\<close>, \<open>meta.scope\<close>,
  \<open>result.body\<close>, \<open>result.status\<close>, \<open>controller.name\<close>). The router coerces the prefix
  with \<open>String(prefix)\<close>, so a prefix is a string or absent (\<open>null\<close>, \<open>undefined\<close>).
\<close>

datatype EInjectionScope = SINGLETON | TRANSIENT | REQUEST

datatype js_prefix = PrefixString string | PrefixNull | PrefixUndefined

text \<open>\<open>String(prefix)\<close>, which is also how a template literal renders \<open>${prefix}\<close>.\<close>

definition js_String :: "js_prefix \<Rightarrow> string" where
  "js_String p =
     (case p of PrefixString s \<Rightarrow> s | PrefixNull \<Rightarrow> ''null'' | PrefixUndefined \<Rightarrow> ''undefined'')"

record ControllerMetadata =
  prefix :: js_prefix
  routes :: "RouteDefinition list"
  scope :: EInjectionScope

record ExecutionResult =
  body :: js_value
  status :: int

text \<open>
  Modelled from the spec: the metadata readers \<open>getControllerOwnMeta\<close> and
  \<open>getInjectableMetadata\<close> (metadata.ts) are missing. The specification treats metadata
  capture as a black box that has deposited the descriptors before start-up, so a class
  (\<open>Newable\<close>) is modelled with its name and the descriptors attached to it, and the
  readers return them; a class that is not a controller has no controller descriptor.
\<close>

record Newable =
  name :: string
  injectableMetadata :: EInjectionScope
  controllerOwnMeta :: "ControllerMetadata option"

definition getControllerOwnMeta :: "Newable \<Rightarrow> ControllerMetadata option" where
  "getControllerOwnMeta controller = controllerOwnMeta controller"

definition getInjectableMetadata :: "Newable \<Rightarrow> EInjectionScope" where
  "getInjectableMetadata newable = injectableMetadata newable"

text \<open>
  Modelled from the spec: the class \<open>ExecutionContainer\<close> (execution_container.ts) is
  missing. An execution container is bound to exactly one controller and caches its
  descriptor; \<open>new ExecutionContainer(meta, controller.name)\<close> is modelled as the value
  holding the two arguments, and the constructor as not throwing.
\<close>

record ExecutionContainer =
  container_meta :: ControllerMetadata
  container_key :: string

definition ExecutionContainer_new :: "ControllerMetadata \<Rightarrow> string \<Rightarrow> ExecutionContainer" where
  "ExecutionContainer_new meta key = \<lparr>container_meta = meta, container_key = key\<rparr>"

section \<open>Requests, responses and contexts (the HTTP layer)\<close>

text \<open>
  The response is the HTTP layer's object; the code assigns its properties \<open>status\<close> and
  \<open>body\<close>. Each assignment stores the value and is appended to \<open>writes\<close>, the sequence of
  assignments in program order. Both records are extensible: whatever else a response or a
  context holds is their \<open>more\<close> part.
\<close>

datatype response_write = WriteStatus int | WriteBody js_value

record Response =
  status :: int
  body :: js_value
  writes :: "response_write list"

record Request =
  request_method :: EHttpMethod
  request_path :: string

record 'r Context =
  request :: Request
  response :: "'r Response_scheme"

definition set_status :: "int \<Rightarrow> 'r Response_scheme \<Rightarrow> 'r Response_scheme" where
  "set_status v r = r\<lparr>Response.status := v, writes := writes r @ [WriteStatus v]\<rparr>"

definition set_body :: "js_value \<Rightarrow> 'r Response_scheme \<Rightarrow> 'r Response_scheme" where
  "set_body v r = r\<lparr>Response.body := v, writes := writes r @ [WriteBody v]\<rparr>"

section \<open>Router (router.ts)\<close>

text \<open>
  The superclass is the HTTP layer's router. Calling \<open>this[route.requestMethod](path, handler)\<close>
  appends one layer to its stack. The handler is a closure over \<open>container\<close> and \<open>route\<close>;
  a layer keeps the two captured values, and \<open>handler\<close> below is the closure's body.
\<close>

record Layer =
  layer_method :: EHttpMethod
  layer_path :: string
  layer_container :: ExecutionContainer
  layer_route :: RouteDefinition

record Router =
  bootstrapMsg :: string
  containerCache :: "string \<rightharpoonup> ExecutionContainer"
  stack :: "Layer list"

definition LOGO_ASCII :: string where
  "LOGO_ASCII =
     ''______           _         _ '' @ [CHR 0x0A] @
     ''|  _  '' @ [CHR 0x5C] @ ''         | |       | |'' @ [CHR 0x0A] @
     ''| | | |__ _  ___| |_ _   _| |'' @ [CHR 0x0A] @
     ''| | | / _` |/ __| __| | | | |'' @ [CHR 0x0A] @
     ''| |/ / (_| | (__| |_| |_| | |'' @ [CHR 0x0A] @
     ''|___/ '' @ [CHR 0x5C] @ ''__,_|'' @ [CHR 0x5C] @ ''___|'' @ [CHR 0x5C] @ ''__|'' @ [CHR 0x5C] @ ''__, |_| FRAMEWORK'' @ [CHR 0x0A] @
     ''                      __/ |  '' @ [CHR 0x0A] @
     ''                      |___/   '' @ [CHR 0x0A] @
     ''  ''"

definition Router_new :: Router where
  "Router_new = \<lparr>bootstrapMsg = LOGO_ASCII @ [CHR 0x0A], containerCache = Map.empty, stack = []\<rparr>"

definition appendToBootstrapMsg :: "string \<Rightarrow> Router \<Rightarrow> Router" where
  "appendToBootstrapMsg msg r = r\<lparr>bootstrapMsg := bootstrapMsg r @ msg\<rparr>"

definition normalizedPath :: "string \<Rightarrow> string \<Rightarrow> string" where
  "normalizedPath pre p =
     (let full = pre @ p
      in if slice full (- 1) None = ''/'' then slice full 0 (Some (- 1)) else full)"

text \<open>The body of the \<open>routes.forEach\<close> callback.\<close>

definition register_route :: "js_prefix \<Rightarrow> ExecutionContainer \<Rightarrow> RouteDefinition \<Rightarrow> Router \<Rightarrow> Router" where
  "register_route pre container route r =
     (let r1 = appendToBootstrapMsg
                 (''  ['' @ toUpperCase (EHttpMethod_value (requestMethod route)) @ ''] '' @ path route @ [CHR 0x0A]) r;
          normalized = normalizedPath (js_String pre) (path route)
      in r1\<lparr>stack := stack r1 @
            [\<lparr>layer_method = requestMethod route, layer_path = normalized,
              layer_container = container, layer_route = route\<rparr>]\<rparr>)"

text \<open>\<open>Router.register\<close>: the error thrown, if any, and the router afterwards.\<close>

definition register :: "Newable \<Rightarrow> Router \<Rightarrow> error option \<times> Router" where
  "register controller r =
     (case getControllerOwnMeta controller of
        None \<Rightarrow> (Some (Error ''Attempted to register non-controller class to DactylRouter''), r)
      | Some meta \<Rightarrow>
          (let container = ExecutionContainer_new meta (name controller);
               r1 = r\<lparr>containerCache := (containerCache r)(js_String (prefix meta) \<mapsto> container)\<rparr>;
               r2 = appendToBootstrapMsg (js_String (prefix meta) @ [CHR 0x0A]) r1;
               r3 = foldl (\<lambda>acc route. register_route (prefix meta) container route acc) r2 (routes meta);
               r4 = appendToBootstrapMsg [] r3
           in (None, r4)))"

definition getBootstrapMsg :: "Router \<Rightarrow> string" where
  "getBootstrapMsg r = bootstrapMsg r"

text \<open>
  The route handler installed by \<open>register\<close>. \<open>execute\<close> is the execution container's
  method, taken as a parameter: it may change the context, and it either resolves to a
  result or rejects with an error (then the handler rejects too and assigns nothing).
\<close>

definition handler ::
  "(ExecutionContainer \<Rightarrow> RouteDefinition \<Rightarrow> ('r, 'c) Context_scheme
      \<Rightarrow> (error + ExecutionResult) \<times> ('r, 'c) Context_scheme)
    \<Rightarrow> Layer \<Rightarrow> ('r, 'c) Context_scheme \<Rightarrow> error option \<times> ('r, 'c) Context_scheme" where
  "handler execute l context =
     (case execute (layer_container l) (layer_route l) context of
        (Inl e, context1) \<Rightarrow> (Some e, context1)
      | (Inr result, context1) \<Rightarrow>
          (None,
           context1\<lparr>response :=
             set_status (ExecutionResult.status result)
               (set_body (ExecutionResult.body result) (response context1))\<rparr>))"

text \<open>\<open>Router.middleware()\<close> returns the HTTP layer's dispatcher over the layers installed so far.\<close>

datatype Middleware = Logger | Timing | Cors | Routes "Layer list" | HandleNotFound

definition Router_middleware :: "Router \<Rightarrow> Middleware" where
  "Router_middleware r = Routes (stack r)"

section \<open>Application (application.ts)\<close>

text \<open>
  The application talks to collaborators whose code is not among the sources: the global
  \<open>DIContainer\<close>, the HTTP layer's application object \<open>#app\<close> and the console. Every call
  made to one of them is appended to \<open>calls\<close>, in the order the calls are made. The state of
  the DI container is \<open>di\<close>, of a type left open; what \<open>DIContainer.register\<close> and
  \<open>DIContainer.instantiateAllSingletons\<close> do to it, and whether they throw, is given by
  the parameters \<open>reg\<close> and \<open>inst\<close> of the functions below. Calls to \<open>#app.use\<close>,
  \<open>#app.listen\<close> (not awaited) and the console do not throw. A port is an integer.
\<close>

datatype styled = blue string | bgBlue string

datatype event =
    DIRegister Newable EInjectionScope string
  | DIInstantiateAllSingletons
  | RouterRegister Newable
  | OakUse Middleware
  | OakListen int
  | ConsoleLog styled
  | ConsoleInfo styled

record 'd world =
  di :: 'd
  calls :: "event list"

record ApplicationConfig =
  controllers :: "Newable list"
  injectables :: "Newable list"

record Application =
  router :: Router
  middleware :: "Middleware list"

definition call :: "event \<Rightarrow> 'd world \<Rightarrow> 'd world" where
  "call e w = w\<lparr>calls := calls w @ [e]\<rparr>"

definition DIContainer_register ::
  "('d \<Rightarrow> Newable \<Rightarrow> EInjectionScope \<Rightarrow> string \<Rightarrow> error option \<times> 'd)
    \<Rightarrow> Newable \<Rightarrow> EInjectionScope \<Rightarrow> string \<Rightarrow> 'd world \<Rightarrow> error option \<times> 'd world" where
  "DIContainer_register reg newable sc key w =
     (let w1 = call (DIRegister newable sc key) w
      in case reg (di w1) newable sc key of (e, d) \<Rightarrow> (e, w1\<lparr>di := d\<rparr>))"

definition DIContainer_instantiateAllSingletons ::
  "('d \<Rightarrow> error option \<times> 'd) \<Rightarrow> 'd world \<Rightarrow> error option \<times> 'd world" where
  "DIContainer_instantiateAllSingletons inst w =
     (let w1 = call DIInstantiateAllSingletons w
      in case inst (di w1) of (e, d) \<Rightarrow> (e, w1\<lparr>di := d\<rparr>))"

text \<open>The three loops of the constructor; each stops at the first error thrown.\<close>

fun register_injectables ::
  "('d \<Rightarrow> Newable \<Rightarrow> EInjectionScope \<Rightarrow> string \<Rightarrow> error option \<times> 'd)
    \<Rightarrow> Newable list \<Rightarrow> 'd world \<Rightarrow> error option \<times> 'd world" where
  "register_injectables reg [] w = (None, w)"
| "register_injectables reg (newable # rest) w =
     (let sc = getInjectableMetadata newable
      in case DIContainer_register reg newable sc (name newable) w of
           (Some e, w1) \<Rightarrow> (Some e, w1)
         | (None, w1) \<Rightarrow> register_injectables reg rest w1)"

fun register_controllers ::
  "('d \<Rightarrow> Newable \<Rightarrow> EInjectionScope \<Rightarrow> string \<Rightarrow> error option \<times> 'd)
    \<Rightarrow> Newable list \<Rightarrow> 'd world \<Rightarrow> error option \<times> 'd world" where
  "register_controllers reg [] w = (None, w)"
| "register_controllers reg (controller # rest) w =
     (case getControllerOwnMeta controller of
        None \<Rightarrow> (Some (Error ''Attempted to register non-controller class''), w)
      | Some meta \<Rightarrow>
          (case DIContainer_register reg controller (scope meta) (name controller) w of
             (Some e, w1) \<Rightarrow> (Some e, w1)
           | (None, w1) \<Rightarrow> register_controllers reg rest w1))"

fun router_register_all ::
  "Newable list \<Rightarrow> Router \<Rightarrow> 'd world \<Rightarrow> error option \<times> Router \<times> 'd world" where
  "router_register_all [] r w = (None, r, w)"
| "router_register_all (controller # rest) r w =
     (let w1 = call (RouterRegister controller) w
      in case register controller r of
           (Some e, r1) \<Rightarrow> (Some e, r1, w1)
         | (None, r1) \<Rightarrow> router_register_all rest r1 w1)"

text \<open>The constructor: the application built, or the error thrown, and the world afterwards.\<close>

definition Application_new ::
  "('d \<Rightarrow> Newable \<Rightarrow> EInjectionScope \<Rightarrow> string \<Rightarrow> error option \<times> 'd)
    \<Rightarrow> ApplicationConfig \<Rightarrow> 'd world \<Rightarrow> (error + Application) \<times> 'd world" where
  "Application_new reg appConfig w =
     (case register_injectables reg (injectables appConfig) w of
        (Some e, w1) \<Rightarrow> (Inl e, w1)
      | (None, w1) \<Rightarrow>
          (case register_controllers reg (controllers appConfig) w1 of
             (Some e, w2) \<Rightarrow> (Inl e, w2)
           | (None, w2) \<Rightarrow>
               (case router_register_all (controllers appConfig) Router_new w2 of
                  (Some e, r, w3) \<Rightarrow> (Inl e, w3)
                | (None, r, w3) \<Rightarrow> (Inr \<lparr>router = r, middleware = []\<rparr>, w3))))"

definition useLogger :: "Application \<Rightarrow> Application" where
  "useLogger a = a\<lparr>middleware := middleware a @ [Logger]\<rparr>"

definition useTiming :: "Application \<Rightarrow> Application" where
  "useTiming a = a\<lparr>middleware := middleware a @ [Timing]\<rparr>"

definition useCors :: "Application \<Rightarrow> Application" where
  "useCors a = a\<lparr>middleware := middleware a @ [Cors]\<rparr>"

text \<open>A sequence of builder calls made on an application, one after the other.\<close>

datatype use_call = CallUseLogger | CallUseTiming | CallUseCors

definition use_call_apply :: "Application \<Rightarrow> use_call \<Rightarrow> Application" where
  "use_call_apply a c =
     (case c of CallUseLogger \<Rightarrow> useLogger a | CallUseTiming \<Rightarrow> useTiming a | CallUseCors \<Rightarrow> useCors a)"

definition use_call_middleware :: "use_call \<Rightarrow> Middleware" where
  "use_call_middleware c =
     (case c of CallUseLogger \<Rightarrow> Logger | CallUseTiming \<Rightarrow> Timing | CallUseCors \<Rightarrow> Cors)"

definition use_calls :: "use_call list \<Rightarrow> Application \<Rightarrow> Application" where
  "use_calls cs a = foldl use_call_apply a cs"

definition handleNotFound :: "('r, 'c) Context_scheme \<Rightarrow> ('r, 'c) Context_scheme" where
  "handleNotFound context =
     (let response0 = response context;
          response1 = set_status 404 response0;
          response2 = set_body (JObj [(''error'', JStr ''Not Found''), (''status'', JNum 404)]) response1
      in context\<lparr>response := response2\<rparr>)"

text \<open>\<open>run(port)\<close>: the error that rejects the returned promise, if any, and the world afterwards.\<close>

definition run ::
  "('d \<Rightarrow> error option \<times> 'd) \<Rightarrow> Application \<Rightarrow> int \<Rightarrow> 'd world \<Rightarrow> error option \<times> 'd world" where
  "run inst a port w =
     (let w1 = foldl (\<lambda>acc m. call (OakUse m) acc) w (middleware a);
          w2 = call (OakUse (Router_middleware (router a))) w1;
          w3 = call (OakUse HandleNotFound) w2;
          msg = getBootstrapMsg (router a);
          w4 = call (ConsoleLog (blue msg)) w3;
          w5 = call (ConsoleInfo (bgBlue (''Dactyl running - please visit http://localhost:''
                 @ number_toString port @ ''/''))) w4
      in case DIContainer_instantiateAllSingletons inst w5 of
           (Some e, w6) \<Rightarrow> (Some e, w6)
         | (None, w6) \<Rightarrow> (None, call (OakListen port) w6))"

section \<open>DinosaurService (example/DinosaurService.ts)\<close>

record DinosaurService =
  dinosaurs :: "js_value list"

definition DinosaurService_new :: DinosaurService where
  "DinosaurService_new =
     \<lparr>dinosaurs =
        [JObj [(''id'', JNum 0), (''name'', JStr ''Tyrannosaurus Rex''), (''period'', JStr ''Maastrichtian'')],
         JObj [(''id'', JNum 1), (''name'', JStr ''Velociraptor''), (''period'', JStr ''Cretaceous'')],
         JObj [(''id'', JNum 2), (''name'', JStr ''Diplodocus''), (''period'', JStr ''Oxfordian'')]]\<rparr>"

definition getAll :: "DinosaurService \<Rightarrow> js_value list" where
  "getAll s = dinosaurs s"

definition getById :: "DinosaurService \<Rightarrow> string \<Rightarrow> js_value" where
  "getById s ident = array_get (dinosaurs s) (parseInt ident 10)"

section \<open>The execution container and the dispatcher, from the specification\<close>

text \<open>
  Modelled from the spec: \<open>ExecutionContainer.execute\<close> (execution_container.ts) is
  missing. Following the specification's steps: the route's before-hooks run in declared
  order and the first one that produces a result short-circuits; otherwise the action is
  invoked on the controller and its outcome is translated: a value \<open>v\<close> returned becomes
  \<open>{body: v, status: 200}\<close> unless the action set an explicit status, which is honoured; an
  HTTP exception with code and message becomes \<open>{body: {error: message, status: code},
  status: code}\<close>; any other failure becomes the generic 500 result. Resolving the
  controller instance, binding the arguments and invoking the action are the parameter
  \<open>actions\<close> (by controller key and method name); the hooks of a route are the parameter
  \<open>hooks\<close>. \<open>execute\<close> never rejects and leaves the context as it is.
\<close>

datatype action_outcome =
    Returned js_value "int option"
  | ThrewHttpException int string
  | ThrewOther

definition translate_outcome :: "action_outcome \<Rightarrow> ExecutionResult" where
  "translate_outcome out =
     (case out of
        Returned v None \<Rightarrow> \<lparr>ExecutionResult.body = v, status = 200\<rparr>
      | Returned v (Some explicit) \<Rightarrow> \<lparr>ExecutionResult.body = v, status = explicit\<rparr>
      | ThrewHttpException code message \<Rightarrow>
          \<lparr>ExecutionResult.body = JObj [(''error'', JStr message), (''status'', JNum code)], status = code\<rparr>
      | ThrewOther \<Rightarrow>
          \<lparr>ExecutionResult.body = JObj [(''error'', JStr ''Internal Server Error''), (''status'', JNum 500)], status = 500\<rparr>)"

fun run_beforeHooks ::
  "(('r, 'c) Context_scheme \<Rightarrow> ExecutionResult option) list \<Rightarrow> ('r, 'c) Context_scheme
    \<Rightarrow> ExecutionResult option" where
  "run_beforeHooks [] context = None"
| "run_beforeHooks (h # hs) context =
     (case h context of Some result \<Rightarrow> Some result | None \<Rightarrow> run_beforeHooks hs context)"

definition ExecutionContainer_execute ::
  "(RouteDefinition \<Rightarrow> (('r, 'c) Context_scheme \<Rightarrow> ExecutionResult option) list)
    \<Rightarrow> (string \<Rightarrow> string \<Rightarrow> ('r, 'c) Context_scheme \<Rightarrow> action_outcome)
    \<Rightarrow> ExecutionContainer \<Rightarrow> RouteDefinition \<Rightarrow> ('r, 'c) Context_scheme
    \<Rightarrow> (error + ExecutionResult) \<times> ('r, 'c) Context_scheme" where
  "ExecutionContainer_execute hooks actions container route context =
     (case run_beforeHooks (hooks route) context of
        Some result \<Rightarrow> (Inr result, context)
      | None \<Rightarrow>
          (Inr (translate_outcome (actions (container_key container) (methodName route) context)),
           context))"

text \<open>
  Modelled from the spec: the dispatcher of the HTTP layer's router is missing. It matches
  the request's method and path against the installed entries, by exact match on the
  normalized path; the first matching entry's handler runs; with no match the not-found
  handler runs.
\<close>

definition dispatch ::
  "(ExecutionContainer \<Rightarrow> RouteDefinition \<Rightarrow> ('r, 'c) Context_scheme
      \<Rightarrow> (error + ExecutionResult) \<times> ('r, 'c) Context_scheme)
    \<Rightarrow> Router \<Rightarrow> ('r, 'c) Context_scheme \<Rightarrow> error option \<times> ('r, 'c) Context_scheme" where
  "dispatch execute r context =
     (case find (\<lambda>l. layer_method l = request_method (request context)
                      \<and> layer_path l = request_path (request context)) (stack r) of
        None \<Rightarrow> (None, handleNotFound context)
      | Some l \<Rightarrow> handler execute l context)"


section \<open>The DI container, from the specification\<close>

text \<open>
  Modelled from the spec: the class \<open>DIContainer\<close> (dependency_container.ts) is missing.
  Following the specification: the container owns the registry of injectable descriptors
  (a type and its scope, under a name) and the instance registry, here the types whose
  instance has been constructed. \<open>register(type, scope, name)\<close> adds a descriptor and fails
  with \<open>DuplicateRegistrationError\<close> if the name or the type is already registered; it has
  no side effect beyond the insertion into the registry, so it constructs nothing.
  \<open>instantiateAllSingletons()\<close> constructs every Singleton-scoped descriptor that has no
  instance yet. The kind of an error is rendered as its message; a constructor that fails
  is not modelled.
\<close>

record InjectableDescriptor =
  typeId :: Newable
  injection_scope :: EInjectionScope

record DIContainer =
  registry :: "(string \<times> InjectableDescriptor) list"
  instantiated :: "Newable list"

definition DIContainer_new :: DIContainer where
  "DIContainer_new = \<lparr>registry = [], instantiated = []\<rparr>"

definition DIContainer_register_spec ::
  "DIContainer \<Rightarrow> Newable \<Rightarrow> EInjectionScope \<Rightarrow> string \<Rightarrow> error option \<times> DIContainer" where
  "DIContainer_register_spec d newable sc key =
     (if key \<in> set (map fst (registry d)) \<or> newable \<in> set (map (\<lambda>e. typeId (snd e)) (registry d))
      then (Some (Error ''DuplicateRegistrationError''), d)
      else (None, d\<lparr>registry := registry d @ [(key, \<lparr>typeId = newable, injection_scope = sc\<rparr>)]\<rparr>))"

definition DIContainer_instantiateAllSingletons_spec :: "DIContainer \<Rightarrow> error option \<times> DIContainer" where
  "DIContainer_instantiateAllSingletons_spec d =
     (None,
      d\<lparr>instantiated := instantiated d @
          filter (\<lambda>t. t \<notin> set (instantiated d))
            (map (\<lambda>e. typeId (snd e))
               (filter (\<lambda>e. injection_scope (snd e) = SINGLETON) (registry d)))\<rparr>)"

section \<open>Example inputs\<close>

definition dinoController :: Newable where
  "dinoController =
     \<lparr>name = ''DinosaurController'', injectableMetadata = SINGLETON,
      controllerOwnMeta = Some \<lparr>prefix = PrefixString ''/dino'',
        routes = [\<lparr>path = ''/'', requestMethod = GET, methodName = ''getDinosaurs''\<rparr>,
                  \<lparr>path = ''/all/'', requestMethod = GET, methodName = ''getAll''\<rparr>],
        scope = SINGLETON\<rparr>\<rparr>"

definition rootController :: Newable where
  "rootController =
     \<lparr>name = ''RootController'', injectableMetadata = SINGLETON,
      controllerOwnMeta = Some \<lparr>prefix = PrefixString ''/'',
        routes = [\<lparr>path = [], requestMethod = GET, methodName = ''index''\<rparr>],
        scope = SINGLETON\<rparr>\<rparr>"

definition plainClass :: Newable where
  "plainClass = \<lparr>name = ''PlainClass'', injectableMetadata = SINGLETON, controllerOwnMeta = None\<rparr>"

definition reg_ok :: "nat \<Rightarrow> Newable \<Rightarrow> EInjectionScope \<Rightarrow> string \<Rightarrow> error option \<times> nat" where
  "reg_ok d newable sc key = (None, Suc d)"


definition otherDinoController :: Newable where
  "otherDinoController =
     \<lparr>name = ''OtherController'', injectableMetadata = TRANSIENT,
      controllerOwnMeta = Some \<lparr>prefix = PrefixString ''/dino'',
        routes = [\<lparr>path = ''/other'', requestMethod = POST, methodName = ''create''\<rparr>],
        scope = TRANSIENT\<rparr>\<rparr>"

definition dinosaursController :: Newable where
  "dinosaursController =
     \<lparr>name = ''DinosaurController'', injectableMetadata = SINGLETON,
      controllerOwnMeta = Some \<lparr>prefix = PrefixString ''/dinosaurs'',
        routes = [\<lparr>path = ''/'', requestMethod = GET, methodName = ''getDinosaurs''\<rparr>,
                  \<lparr>path = ''/:id'', requestMethod = GET, methodName = ''getById''\<rparr>],
        scope = SINGLETON\<rparr>\<rparr>"

definition dinosaurService :: Newable where
  "dinosaurService = \<lparr>name = ''DinosaurService'', injectableMetadata = SINGLETON, controllerOwnMeta = None\<rparr>"

definition exampleConfig :: ApplicationConfig where
  "exampleConfig = \<lparr>controllers = [dinosaursController], injectables = [dinosaurService]\<rparr>"

definition inst_ok :: "nat \<Rightarrow> error option \<times> nat" where
  "inst_ok d = (None, d)"

definition emptyWorld :: "nat world" where
  "emptyWorld = \<lparr>di = 0, calls = []\<rparr>"

definition containerWorld :: "DIContainer world" where
  "containerWorld = \<lparr>di = DIContainer_new, calls = []\<rparr>"

definition exampleContext :: "(unit, unit) Context_scheme" where
  "exampleContext =
     \<lparr>request = \<lparr>request_method = GET, request_path = ''/dinosaurs''\<rparr>,
      response = \<lparr>Response.status = 404, body = JUndefined, writes = []\<rparr>\<rparr>"

definition exampleActions :: "string \<Rightarrow> string \<Rightarrow> (unit, unit) Context_scheme \<Rightarrow> action_outcome" where
  "exampleActions key method context =
     (if key = ''DinosaurController'' \<and> method = ''getDinosaurs''
      then Returned (JArr (getAll DinosaurService_new)) None
      else ThrewOther)"

definition exampleExecute ::
  "ExecutionContainer \<Rightarrow> RouteDefinition \<Rightarrow> (unit, unit) Context_scheme
    \<Rightarrow> (error + ExecutionResult) \<times> (unit, unit) Context_scheme" where
  "exampleExecute = ExecutionContainer_execute (\<lambda>route. []) exampleActions"

text \<open>The calls the constructor makes when nothing throws: one \<open>DIContainer.register\<close> per
  injectable, one per controller (that has metadata), one \<open>Router.register\<close> per controller.\<close>

definition constructor_calls :: "ApplicationConfig \<Rightarrow> event list" where
  "constructor_calls cfg =
     map (\<lambda>n. DIRegister n (getInjectableMetadata n) (name n)) (injectables cfg)
     @ concat (map (\<lambda>c. case getControllerOwnMeta c of None \<Rightarrow> []
                         | Some meta \<Rightarrow> [DIRegister c (scope meta) (name c)]) (controllers cfg))
     @ map RouterRegister (controllers cfg)"

section \<open>Properties\<close>

lemma slice_last: "slice s (- 1) None = (if s = [] then [] else [last s])"
  apply (cases s rule: rev_cases)
   apply (simp_all add: slice_def Let_def)
  done

lemma slice_butlast: "slice s 0 (Some (- 1)) = butlast s"
  apply (cases s rule: rev_cases)
   apply (simp_all add: slice_def Let_def)
  done

lemma normalizedPath_eq:
  "normalizedPath pre p =
     (if pre @ p \<noteq> [] \<and> last (pre @ p) = CHR ''/'' then butlast (pre @ p) else pre @ p)"
  unfolding normalizedPath_def Let_def slice_last slice_butlast
  by auto

lemma register_route_stack:
  "stack (foldl (\<lambda>acc route. register_route pre container route acc) r rs) =
     stack r @ map (\<lambda>route. \<lparr>layer_method = requestMethod route,
                              layer_path = normalizedPath (js_String pre) (path route),
                              layer_container = container, layer_route = route\<rparr>) rs"
  by (induction rs arbitrary: r) (simp_all add: register_route_def appendToBootstrapMsg_def Let_def)

lemma register_route_cache:
  "containerCache (foldl (\<lambda>acc route. register_route pre container route acc) r rs) = containerCache r"
  by (induction rs arbitrary: r) (simp_all add: register_route_def appendToBootstrapMsg_def Let_def)

lemma register_stack:
  "getControllerOwnMeta c = Some meta \<Longrightarrow>
   stack (snd (register c r)) =
     stack r @ map (\<lambda>route. \<lparr>layer_method = requestMethod route,
                              layer_path = normalizedPath (js_String (prefix meta)) (path route),
                              layer_container = ExecutionContainer_new meta (name c),
                              layer_route = route\<rparr>) (routes meta)"
  by (simp add: register_def Let_def appendToBootstrapMsg_def register_route_stack)

lemma register_cache:
  "getControllerOwnMeta c = Some meta \<Longrightarrow>
   containerCache (snd (register c r)) =
     (containerCache r)(js_String (prefix meta) \<mapsto> ExecutionContainer_new meta (name c))"
  by (simp add: register_def Let_def appendToBootstrapMsg_def register_route_cache)

lemma register_fst:
  "fst (register c r) =
     (case getControllerOwnMeta c of
        None \<Rightarrow> Some (Error ''Attempted to register non-controller class to DactylRouter'')
      | Some meta \<Rightarrow> None)"
  by (simp add: register_def Let_def split: option.splits)

lemma register_no_meta: "getControllerOwnMeta c = None \<Longrightarrow> snd (register c r) = r"
  by (simp add: register_def)

text \<open>
  Claim C1, as amended. \<open>Router.register\<close> installs one dispatch entry per route of the
  controller, in route order, after the entries already installed. The entry's path is
  \<open>String(prefix) + path\<close> with one trailing \<open>/\<close> removed whenever the concatenation ends
  in one. No path is exempt: when the concatenation is the root path \<open>/\<close> itself, the
  entry's path is the empty string. Prefix \<open>/dino\<close> with route paths \<open>/\<close> and \<open>/all/\<close> gives the
  dispatch paths \<open>/dino\<close> and \<open>/dino/all\<close>.
\<close>

theorem register_installs_normalized_paths:
  "stack (snd (register c r)) =
     (case getControllerOwnMeta c of
        None \<Rightarrow> stack r
      | Some meta \<Rightarrow>
          stack r @
          map (\<lambda>route.
                 \<lparr>layer_method = requestMethod route,
                  layer_path =
                    (let full = js_String (prefix meta) @ path route
                     in if full \<noteq> [] \<and> last full = CHR ''/'' then butlast full else full),
                  layer_container = ExecutionContainer_new meta (name c),
                  layer_route = route\<rparr>)
              (routes meta))
   \<and> map layer_path (stack (snd (register dinoController Router_new))) = [''/dino'', ''/dino/all'']
   \<and> map layer_path (stack (snd (register rootController Router_new))) = ['''']"
proof (intro conjI)
  show "stack (snd (register c r)) =
     (case getControllerOwnMeta c of
        None \<Rightarrow> stack r
      | Some meta \<Rightarrow>
          stack r @
          map (\<lambda>route.
                 \<lparr>layer_method = requestMethod route,
                  layer_path =
                    (let full = js_String (prefix meta) @ path route
                     in if full \<noteq> [] \<and> last full = CHR ''/'' then butlast full else full),
                  layer_container = ExecutionContainer_new meta (name c),
                  layer_route = route\<rparr>)
              (routes meta))"
  proof (cases "getControllerOwnMeta c")
    case None
    then show ?thesis by (simp add: register_no_meta)
  next
    case (Some meta)
    then show ?thesis by (simp add: register_stack normalizedPath_eq Let_def)
  qed
next
  show "map layer_path (stack (snd (register dinoController Router_new))) = [''/dino'', ''/dino/all'']"
    by (simp add: register_def Let_def getControllerOwnMeta_def dinoController_def Router_new_def
        register_route_def appendToBootstrapMsg_def normalizedPath_eq js_String_def)
next
  show "map layer_path (stack (snd (register rootController Router_new))) = ['''']"
    by (simp add: register_def Let_def getControllerOwnMeta_def rootController_def Router_new_def
        register_route_def appendToBootstrapMsg_def normalizedPath_eq js_String_def)
qed

text \<open>
  Claim C1 as stated fails: it says the root path is preserved as it is. For a controller
  with prefix \<open>/\<close> and a route with the empty path the concatenation is the root path
  \<open>/\<close>, and the dispatch entry is not installed at \<open>/\<close>.
\<close>

theorem register_root_path_counterexample:
  "js_String (PrefixString ''/'') @ [] = ''/''
   \<and> layer_path (hd (stack (snd (register rootController Router_new)))) \<noteq> ''/''"
  by (simp add: register_def Let_def getControllerOwnMeta_def rootController_def Router_new_def
        register_route_def appendToBootstrapMsg_def normalizedPath_eq js_String_def)

lemma register_controllers_fails:
  "c \<in> set cs \<Longrightarrow> getControllerOwnMeta c = None \<Longrightarrow> fst (register_controllers reg cs w) \<noteq> None"
proof (induction cs arbitrary: w)
  case Nil
  then show ?case by simp
next
  case (Cons a cs)
  show ?case
  proof (cases "getControllerOwnMeta a")
    case None
    then show ?thesis by simp
  next
    case (Some meta)
    with Cons.prems have "c \<in> set cs" by auto
    from Cons.IH [OF this Cons.prems(2)] Some show ?thesis
      by (auto split: prod.splits option.splits)
  qed
qed

text \<open>
  Claim C2. \<open>Router.register\<close> throws exactly when the class carries no controller metadata;
  when it throws, the router (container cache, dispatch entries, bootstrap message) is
  unchanged. The \<open>Application\<close> constructor throws whenever one of the controllers of its
  configuration carries no controller metadata, whatever \<open>DIContainer.register\<close> does.
\<close>

theorem register_throws_iff_no_metadata:
  "(fst (register c r) \<noteq> None) = (getControllerOwnMeta c = None)
   \<and> (getControllerOwnMeta c = None \<longrightarrow> snd (register c r) = r)
   \<and> (c \<in> set (controllers cfg) \<and> getControllerOwnMeta c = None
        \<longrightarrow> (\<exists>e. fst (Application_new reg cfg w) = Inl e))"
proof (intro conjI impI)
  show "(fst (register c r) \<noteq> None) = (getControllerOwnMeta c = None)"
    by (simp add: register_fst split: option.splits)
next
  assume "getControllerOwnMeta c = None"
  then show "snd (register c r) = r" by (rule register_no_meta)
next
  assume a: "c \<in> set (controllers cfg) \<and> getControllerOwnMeta c = None"
  obtain e1 w1 where i: "register_injectables reg (injectables cfg) w = (e1, w1)"
    by (cases "register_injectables reg (injectables cfg) w")
  show "\<exists>e. fst (Application_new reg cfg w) = Inl e"
  proof (cases e1)
    case (Some e)
    with i show ?thesis by (simp add: Application_new_def)
  next
    case None
    obtain e2 w2 where c2: "register_controllers reg (controllers cfg) w1 = (e2, w2)"
      by (cases "register_controllers reg (controllers cfg) w1")
    from a register_controllers_fails [of c "controllers cfg" reg w1] c2
    obtain e where "e2 = Some e" by auto
    with i None c2 show ?thesis by (simp add: Application_new_def)
  qed
qed

text \<open>Claim C2 at a class without controller metadata, alone and in a configuration.\<close>

theorem register_throws_iff_no_metadata_witness:
  "getControllerOwnMeta plainClass = None
   \<and> plainClass \<in> set (controllers \<lparr>controllers = [dinoController, plainClass], injectables = []\<rparr>)
   \<and> fst (register plainClass Router_new) \<noteq> None
   \<and> snd (register plainClass Router_new) = Router_new
   \<and> (\<exists>e. fst (Application_new reg_ok \<lparr>controllers = [dinoController, plainClass], injectables = []\<rparr>
                 \<lparr>di = 0, calls = []\<rparr>) = Inl e)"
  using register_throws_iff_no_metadata [of plainClass Router_new
      "\<lparr>controllers = [dinoController, plainClass], injectables = []\<rparr>" reg_ok "\<lparr>di = 0, calls = []\<rparr>"]
  by (simp add: plainClass_def getControllerOwnMeta_def)

text \<open>
  Claim C7. After a successful \<open>Router.register\<close> the container cache maps the controller's
  prefix, coerced to a string, to the execution container constructed from that
  controller's metadata (and its name); every other key of the cache is as before. The
  cache is a map, so it holds one container per prefix.
\<close>

theorem register_caches_container:
  "fst (register c r) = None \<Longrightarrow>
   (\<exists>meta. getControllerOwnMeta c = Some meta
      \<and> containerCache (snd (register c r)) (js_String (prefix meta))
          = Some (ExecutionContainer_new meta (name c))
      \<and> container_meta (ExecutionContainer_new meta (name c)) = meta
      \<and> (\<forall>k. k \<noteq> js_String (prefix meta)
            \<longrightarrow> containerCache (snd (register c r)) k = containerCache r k))"
proof -
  assume "fst (register c r) = None"
  then obtain meta where m: "getControllerOwnMeta c = Some meta"
    by (auto simp: register_fst split: option.splits)
  show ?thesis
    using m by (simp add: register_cache ExecutionContainer_new_def)
qed

text \<open>Claim C7 at the controller with prefix \<open>/dino\<close>, registered with a new router.\<close>

theorem register_caches_container_witness:
  "fst (register dinoController Router_new) = None
   \<and> containerCache (snd (register dinoController Router_new)) ''/dino''
       = Some (ExecutionContainer_new (the (controllerOwnMeta dinoController)) ''DinosaurController'')"
  using register_caches_container [of dinoController Router_new]
  by (simp add: register_fst getControllerOwnMeta_def dinoController_def js_String_def)

text \<open>
  Claim C10. Registering a second controller whose prefix, as a string, equals the prefix
  of a controller registered before succeeds: no error is thrown, and the cache entry of
  that prefix, which held the first controller's container, holds the second
  controller's container afterwards; the keys of the cache are the same.
\<close>

theorem register_duplicate_prefix_replaces:
  "getControllerOwnMeta c1 = Some m1 \<Longrightarrow> getControllerOwnMeta c2 = Some m2 \<Longrightarrow>
   js_String (prefix m1) = js_String (prefix m2) \<Longrightarrow>
   fst (register c1 r) = None
   \<and> fst (register c2 (snd (register c1 r))) = None
   \<and> containerCache (snd (register c1 r)) (js_String (prefix m1))
        = Some (ExecutionContainer_new m1 (name c1))
   \<and> containerCache (snd (register c2 (snd (register c1 r)))) (js_String (prefix m1))
        = Some (ExecutionContainer_new m2 (name c2))
   \<and> dom (containerCache (snd (register c2 (snd (register c1 r)))))
        = dom (containerCache (snd (register c1 r)))"
  by (auto simp: register_fst register_cache)

text \<open>Claim C10 at two controllers that share the prefix \<open>/dino\<close>.\<close>

theorem register_duplicate_prefix_replaces_witness:
  "getControllerOwnMeta dinoController = Some (the (controllerOwnMeta dinoController))
   \<and> getControllerOwnMeta otherDinoController = Some (the (controllerOwnMeta otherDinoController))
   \<and> js_String (prefix (the (controllerOwnMeta dinoController)))
        = js_String (prefix (the (controllerOwnMeta otherDinoController)))
   \<and> fst (register dinoController Router_new) = None
   \<and> fst (register otherDinoController (snd (register dinoController Router_new))) = None
   \<and> containerCache (snd (register dinoController Router_new)) ''/dino''
        = Some (ExecutionContainer_new (the (controllerOwnMeta dinoController)) ''DinosaurController'')
   \<and> containerCache (snd (register otherDinoController (snd (register dinoController Router_new)))) ''/dino''
        = Some (ExecutionContainer_new (the (controllerOwnMeta otherDinoController)) ''OtherController'')"
  using register_duplicate_prefix_replaces [of dinoController "the (controllerOwnMeta dinoController)"
      otherDinoController "the (controllerOwnMeta otherDinoController)" Router_new]
  by (simp add: getControllerOwnMeta_def dinoController_def otherDinoController_def js_String_def)

text \<open>
  Claim C3. Whatever the context and its response held before, the not-found handler
  leaves the response with status 404 and body \<open>{error: "Not Found", status: 404}\<close>. It
  assigns the status, then the body, and changes nothing else of the response or context.
\<close>

theorem handleNotFound_sets_404:
  "Response.status (response (handleNotFound context)) = 404
   \<and> Response.body (response (handleNotFound context))
        = JObj [(''error'', JStr ''Not Found''), (''status'', JNum 404)]
   \<and> writes (response (handleNotFound context))
        = writes (response context)
          @ [WriteStatus 404, WriteBody (JObj [(''error'', JStr ''Not Found''), (''status'', JNum 404)])]
   \<and> Response.more (response (handleNotFound context)) = Response.more (response context)
   \<and> request (handleNotFound context) = request context
   \<and> Context.more (handleNotFound context) = Context.more context"
  by (simp add: handleNotFound_def Let_def set_status_def set_body_def)

text \<open>
  Claim C5. Let \<open>l\<close> be a dispatch entry installed by registering a controller. Its container
  is the one cached under the controller's prefix and its route is one of the controller's
  routes. When \<open>execute\<close> on that container, with that route and the context, resolves to a
  result, the handler does not reject, and it assigns the result's body and then the
  result's status to the response that \<open>execute\<close> left; these are its only two
  assignments, and the rest of the response and of the context is as \<open>execute\<close> left it.
\<close>

theorem handler_writes_result:
  "getControllerOwnMeta c = Some meta \<Longrightarrow>
   l \<in> set (drop (length (stack r)) (stack (snd (register c r)))) \<Longrightarrow>
   execute (layer_container l) (layer_route l) context = (Inr result, context1) \<Longrightarrow>
   containerCache (snd (register c r)) (js_String (prefix meta)) = Some (layer_container l)
   \<and> layer_route l \<in> set (routes meta)
   \<and> fst (handler execute l context) = None
   \<and> Response.body (response (snd (handler execute l context))) = ExecutionResult.body result
   \<and> Response.status (response (snd (handler execute l context))) = ExecutionResult.status result
   \<and> writes (response (snd (handler execute l context)))
        = writes (response context1)
          @ [WriteBody (ExecutionResult.body result), WriteStatus (ExecutionResult.status result)]
   \<and> Response.more (response (snd (handler execute l context))) = Response.more (response context1)
   \<and> request (snd (handler execute l context)) = request context1
   \<and> Context.more (snd (handler execute l context)) = Context.more context1"
proof -
  assume m: "getControllerOwnMeta c = Some meta"
    and l: "l \<in> set (drop (length (stack r)) (stack (snd (register c r))))"
    and e: "execute (layer_container l) (layer_route l) context = (Inr result, context1)"
  from l obtain route where r: "route \<in> set (routes meta)"
    and leq: "l = \<lparr>layer_method = requestMethod route,
                    layer_path = normalizedPath (js_String (prefix meta)) (path route),
                    layer_container = ExecutionContainer_new meta (name c),
                    layer_route = route\<rparr>"
    by (auto simp: register_stack [OF m])
  have h: "handler execute l context =
      (None, context1\<lparr>response := set_status (ExecutionResult.status result)
                 (set_body (ExecutionResult.body result) (response context1))\<rparr>)"
    using e by (simp add: handler_def)
  have c: "containerCache (snd (register c r)) (js_String (prefix meta)) = Some (layer_container l)"
    by (simp add: register_cache [OF m] leq)
  have rt: "layer_route l \<in> set (routes meta)"
    using r by (simp add: leq)
  show ?thesis
    unfolding h using c rt by (simp add: set_status_def set_body_def)
qed

text \<open>Claim C5 at the first dispatch entry of the \<open>/dinosaurs\<close> controller.\<close>

theorem handler_writes_result_witness:
  "getControllerOwnMeta dinosaursController = Some (the (controllerOwnMeta dinosaursController))
   \<and> hd (stack (snd (register dinosaursController Router_new)))
       \<in> set (drop (length (stack Router_new)) (stack (snd (register dinosaursController Router_new))))
   \<and> exampleExecute (layer_container (hd (stack (snd (register dinosaursController Router_new)))))
         (layer_route (hd (stack (snd (register dinosaursController Router_new))))) exampleContext
       = (Inr \<lparr>ExecutionResult.body = JArr (getAll DinosaurService_new), status = 200\<rparr>, exampleContext)
   \<and> Response.body (response (snd (handler exampleExecute
         (hd (stack (snd (register dinosaursController Router_new)))) exampleContext)))
       = JArr (getAll DinosaurService_new)
   \<and> Response.status (response (snd (handler exampleExecute
         (hd (stack (snd (register dinosaursController Router_new)))) exampleContext))) = 200
   \<and> writes (response (snd (handler exampleExecute
         (hd (stack (snd (register dinosaursController Router_new)))) exampleContext)))
       = [WriteBody (JArr (getAll DinosaurService_new)), WriteStatus 200]"
proof -
  have m: "getControllerOwnMeta dinosaursController = Some (the (controllerOwnMeta dinosaursController))"
    by (simp add: getControllerOwnMeta_def dinosaursController_def)
  have s: "stack (snd (register dinosaursController Router_new)) =
     [\<lparr>layer_method = GET, layer_path = ''/dinosaurs'',
       layer_container = ExecutionContainer_new (the (controllerOwnMeta dinosaursController)) ''DinosaurController'',
       layer_route = \<lparr>path = ''/'', requestMethod = GET, methodName = ''getDinosaurs''\<rparr>\<rparr>,
      \<lparr>layer_method = GET, layer_path = ''/dinosaurs/:id'',
       layer_container = ExecutionContainer_new (the (controllerOwnMeta dinosaursController)) ''DinosaurController'',
       layer_route = \<lparr>path = ''/:id'', requestMethod = GET, methodName = ''getById''\<rparr>\<rparr>]"
    by (simp add: register_def Let_def getControllerOwnMeta_def dinosaursController_def Router_new_def
        register_route_def appendToBootstrapMsg_def normalizedPath_eq js_String_def)
  have l: "hd (stack (snd (register dinosaursController Router_new)))
      \<in> set (drop (length (stack Router_new)) (stack (snd (register dinosaursController Router_new))))"
    unfolding s by (simp add: Router_new_def)
  have e: "exampleExecute (layer_container (hd (stack (snd (register dinosaursController Router_new)))))
       (layer_route (hd (stack (snd (register dinosaursController Router_new))))) exampleContext
     = (Inr \<lparr>ExecutionResult.body = JArr (getAll DinosaurService_new), status = 200\<rparr>, exampleContext)"
    unfolding s
    by (simp add: exampleExecute_def ExecutionContainer_execute_def exampleActions_def
        ExecutionContainer_new_def translate_outcome_def)
  have w: "writes (response exampleContext) = []"
    by (simp add: exampleContext_def)
  from handler_writes_result [where execute = exampleExecute, OF m l e]
  have "Response.body (response (snd (handler exampleExecute
         (hd (stack (snd (register dinosaursController Router_new)))) exampleContext)))
       = JArr (getAll DinosaurService_new)
   \<and> Response.status (response (snd (handler exampleExecute
         (hd (stack (snd (register dinosaursController Router_new)))) exampleContext))) = 200
   \<and> writes (response (snd (handler exampleExecute
         (hd (stack (snd (register dinosaursController Router_new)))) exampleContext)))
       = [WriteBody (JArr (getAll DinosaurService_new)), WriteStatus 200]"
    by (simp add: w)
  with m l e show ?thesis
    by (intro conjI) simp_all
qed

lemma use_calls_middleware:
  "middleware (use_calls cs a) = middleware a @ map use_call_middleware cs"
  unfolding use_calls_def
  by (induction cs arbitrary: a)
     (auto simp: use_call_apply_def use_call_middleware_def useLogger_def useTiming_def useCors_def
           split: use_call.splits)

lemma use_calls_router: "router (use_calls cs a) = router a"
  unfolding use_calls_def
  by (induction cs arbitrary: a)
     (auto simp: use_call_apply_def useLogger_def useTiming_def useCors_def split: use_call.splits)

lemma calls_call: "calls (call e w) = calls w @ [e]"
  by (simp add: call_def)

lemma foldl_use_calls:
  "calls (foldl (\<lambda>acc m. call (OakUse m) acc) w ms) = calls w @ map OakUse ms"
  by (induction ms arbitrary: w) (simp_all add: calls_call)

lemma Application_new_middleware:
  "fst (Application_new reg cfg w) = Inr a \<Longrightarrow> middleware a = []"
  by (auto simp: Application_new_def split: prod.splits option.splits)

lemma run_calls:
  "calls (snd (run inst a port w)) =
     calls w @ map OakUse (middleware a)
     @ [OakUse (Router_middleware (router a)), OakUse HandleNotFound,
        ConsoleLog (blue (getBootstrapMsg (router a))),
        ConsoleInfo (bgBlue (''Dactyl running - please visit http://localhost:''
                               @ number_toString port @ ''/'')),
        DIInstantiateAllSingletons]
     @ (if fst (run inst a port w) = None then [OakListen port] else [])"
  by (simp add: run_def Let_def DIContainer_instantiateAllSingletons_def calls_call foldl_use_calls
      split: prod.splits option.splits)

lemma count_OakUse: "count_list (map OakUse ms) DIInstantiateAllSingletons = 0"
  by (induction ms) simp_all

text \<open>
  Claim C4. For an application built by the constructor, on which the builder methods
  \<open>cs\<close> were then called in that order, \<open>run(port)\<close> makes these calls, in this order: one
  \<open>use\<close> per builder call, in the order of the builder calls; \<open>use\<close> of the router's
  dispatcher; \<open>use\<close> of the not-found handler; the two console messages;
  \<open>instantiateAllSingletons\<close>; and, unless that threw, \<open>listen\<close> on the port.
  \<open>instantiateAllSingletons\<close> is called exactly once.
\<close>

theorem run_startup_order:
  "fst (Application_new reg cfg w0) = Inr a \<Longrightarrow>
   calls (snd (run inst (use_calls cs a) port w)) =
     calls w @ map (\<lambda>c. OakUse (use_call_middleware c)) cs
     @ [OakUse (Router_middleware (router a)), OakUse HandleNotFound,
        ConsoleLog (blue (getBootstrapMsg (router a))),
        ConsoleInfo (bgBlue (''Dactyl running - please visit http://localhost:''
                               @ number_toString port @ ''/'')),
        DIInstantiateAllSingletons]
     @ (if fst (run inst (use_calls cs a) port w) = None then [OakListen port] else [])
   \<and> count_list (drop (length (calls w)) (calls (snd (run inst (use_calls cs a) port w))))
        DIInstantiateAllSingletons = 1"
proof -
  assume "fst (Application_new reg cfg w0) = Inr a"
  then have m: "middleware a = []" by (rule Application_new_middleware)
  have c: "calls (snd (run inst (use_calls cs a) port w)) =
     calls w @ map (\<lambda>c. OakUse (use_call_middleware c)) cs
     @ [OakUse (Router_middleware (router a)), OakUse HandleNotFound,
        ConsoleLog (blue (getBootstrapMsg (router a))),
        ConsoleInfo (bgBlue (''Dactyl running - please visit http://localhost:''
                               @ number_toString port @ ''/'')),
        DIInstantiateAllSingletons]
     @ (if fst (run inst (use_calls cs a) port w) = None then [OakListen port] else [])"
    by (simp add: run_calls use_calls_middleware use_calls_router m comp_def)
  have "count_list (map (\<lambda>c. OakUse (use_call_middleware c)) cs) DIInstantiateAllSingletons = 0"
    using count_OakUse [of "map use_call_middleware cs"] by (simp add: comp_def)
  then have "count_list (drop (length (calls w)) (calls (snd (run inst (use_calls cs a) port w))))
        DIInstantiateAllSingletons = 1"
    unfolding c by simp
  with c show ?thesis by simp
qed

text \<open>Claim C4 at the example configuration, with the builders timing, logger, cors and port 8000.\<close>

theorem run_startup_order_witness:
  "fst (Application_new reg_ok exampleConfig emptyWorld)
     = Inr (projr (fst (Application_new reg_ok exampleConfig emptyWorld)))
   \<and> calls (snd (run inst_ok
       (use_calls [CallUseTiming, CallUseLogger, CallUseCors]
          (projr (fst (Application_new reg_ok exampleConfig emptyWorld)))) 8000 emptyWorld))
     = [OakUse Timing, OakUse Logger, OakUse Cors,
        OakUse (Router_middleware (router (projr (fst (Application_new reg_ok exampleConfig emptyWorld))))),
        OakUse HandleNotFound,
        ConsoleLog (blue (getBootstrapMsg (router (projr (fst (Application_new reg_ok exampleConfig emptyWorld)))))),
        ConsoleInfo (bgBlue ''Dactyl running - please visit http://localhost:8000/''),
        DIInstantiateAllSingletons, OakListen 8000]"
proof -
  have a: "fst (Application_new reg_ok exampleConfig emptyWorld)
      = Inr (projr (fst (Application_new reg_ok exampleConfig emptyWorld)))"
    by (simp add: Application_new_def exampleConfig_def emptyWorld_def reg_ok_def dinosaurService_def
        dinosaursController_def DIContainer_register_def call_def getControllerOwnMeta_def
        getInjectableMetadata_def register_def Let_def)
  have r: "fst (run inst_ok (use_calls [CallUseTiming, CallUseLogger, CallUseCors]
          (projr (fst (Application_new reg_ok exampleConfig emptyWorld)))) 8000 emptyWorld) = None"
    by (simp add: run_def Let_def DIContainer_instantiateAllSingletons_def inst_ok_def)
  have p: "number_toString 8000 = ''8000''"
    by (simp add: number_toString_def nat_toString.simps digit_char_def)
  have ew: "calls emptyWorld = []"
    by (simp add: emptyWorld_def)
  from run_startup_order [OF a, of inst_ok "[CallUseTiming, CallUseLogger, CallUseCors]" 8000 emptyWorld]
  have "calls (snd (run inst_ok
       (use_calls [CallUseTiming, CallUseLogger, CallUseCors]
          (projr (fst (Application_new reg_ok exampleConfig emptyWorld)))) 8000 emptyWorld))
     = [OakUse Timing, OakUse Logger, OakUse Cors,
        OakUse (Router_middleware (router (projr (fst (Application_new reg_ok exampleConfig emptyWorld))))),
        OakUse HandleNotFound,
        ConsoleLog (blue (getBootstrapMsg (router (projr (fst (Application_new reg_ok exampleConfig emptyWorld)))))),
        ConsoleInfo (bgBlue ''Dactyl running - please visit http://localhost:8000/''),
        DIInstantiateAllSingletons, OakListen 8000]"
    by (simp add: r p use_call_middleware_def ew)
  with a show ?thesis
    by (intro conjI)
qed

lemma register_injectables_calls:
  "\<exists>k. calls (snd (register_injectables reg ns w)) =
          calls w @ take k (map (\<lambda>n. DIRegister n (getInjectableMetadata n) (name n)) ns)
        \<and> (fst (register_injectables reg ns w) = None \<longrightarrow> length ns \<le> k)"
proof (induction ns arbitrary: w)
  case Nil
  then show ?case by simp
next
  case (Cons n ns)
  obtain e w1 where d: "DIContainer_register reg n (getInjectableMetadata n) (name n) w = (e, w1)"
    by (cases "DIContainer_register reg n (getInjectableMetadata n) (name n) w")
  then have c1: "calls w1 = calls w @ [DIRegister n (getInjectableMetadata n) (name n)]"
    by (auto simp: DIContainer_register_def Let_def calls_call split: prod.splits)
  show ?case
  proof (cases e)
    case (Some err)
    with d c1 have "calls (snd (register_injectables reg (n # ns) w)) =
          calls w @ take 1 (map (\<lambda>n. DIRegister n (getInjectableMetadata n) (name n)) (n # ns))
        \<and> (fst (register_injectables reg (n # ns) w) = None \<longrightarrow> length (n # ns) \<le> 1)"
      by (simp add: Let_def)
    then show ?thesis by (rule exI)
  next
    case None
    from Cons.IH [of w1] obtain k where
      kk: "calls (snd (register_injectables reg ns w1)) =
            calls w1 @ take k (map (\<lambda>n. DIRegister n (getInjectableMetadata n) (name n)) ns)
        \<and> (fst (register_injectables reg ns w1) = None \<longrightarrow> length ns \<le> k)" ..
    from kk have k: "calls (snd (register_injectables reg ns w1)) =
            calls w1 @ take k (map (\<lambda>n. DIRegister n (getInjectableMetadata n) (name n)) ns)" and kl: "fst (register_injectables reg ns w1) = None \<longrightarrow> length ns \<le> k"
      by simp_all
    from d None k kl c1 have "calls (snd (register_injectables reg (n # ns) w)) =
          calls w @ take (Suc k) (map (\<lambda>n. DIRegister n (getInjectableMetadata n) (name n)) (n # ns))
        \<and> (fst (register_injectables reg (n # ns) w) = None \<longrightarrow> length (n # ns) \<le> Suc k)"
      by (simp add: Let_def)
    then show ?thesis by (rule exI)
  qed
qed

lemma register_controllers_calls:
  "\<exists>k. calls (snd (register_controllers reg cs w)) =
          calls w @ take k (concat (map (\<lambda>c. case getControllerOwnMeta c of None \<Rightarrow> []
                         | Some meta \<Rightarrow> [DIRegister c (scope meta) (name c)]) cs))
        \<and> (fst (register_controllers reg cs w) = None \<longrightarrow>
             (\<forall>c \<in> set cs. getControllerOwnMeta c \<noteq> None) \<and> length cs \<le> k)"
proof (induction cs arbitrary: w)
  case Nil
  then show ?case by simp
next
  case (Cons c cs)
  show ?case
  proof (cases "getControllerOwnMeta c")
    case None
    then have "calls (snd (register_controllers reg (c # cs) w)) =
          calls w @ take 0 (concat (map (\<lambda>c. case getControllerOwnMeta c of None \<Rightarrow> []
                         | Some meta \<Rightarrow> [DIRegister c (scope meta) (name c)]) (c # cs)))
        \<and> (fst (register_controllers reg (c # cs) w) = None \<longrightarrow>
             (\<forall>c \<in> set (c # cs). getControllerOwnMeta c \<noteq> None) \<and> length (c # cs) \<le> 0)"
      by simp
    then show ?thesis by (rule exI)
  next
    case (Some meta)
    obtain e w1 where d: "DIContainer_register reg c (scope meta) (name c) w = (e, w1)"
      by (cases "DIContainer_register reg c (scope meta) (name c) w")
    then have c1: "calls w1 = calls w @ [DIRegister c (scope meta) (name c)]"
      by (auto simp: DIContainer_register_def Let_def calls_call split: prod.splits)
    show ?thesis
    proof (cases e)
      case (Some err)
      with d c1 \<open>getControllerOwnMeta c = Some meta\<close>
      have "calls (snd (register_controllers reg (c # cs) w)) =
          calls w @ take 1 (concat (map (\<lambda>c. case getControllerOwnMeta c of None \<Rightarrow> []
                         | Some meta \<Rightarrow> [DIRegister c (scope meta) (name c)]) (c # cs)))
        \<and> (fst (register_controllers reg (c # cs) w) = None \<longrightarrow>
             (\<forall>c \<in> set (c # cs). getControllerOwnMeta c \<noteq> None) \<and> length (c # cs) \<le> 1)"
        by simp
      then show ?thesis by (rule exI)
    next
      case None
      from Cons.IH [of w1] obtain k where
        kk: "calls (snd (register_controllers reg cs w1)) =
          calls w1 @ take k (concat (map (\<lambda>c. case getControllerOwnMeta c of None \<Rightarrow> []
                         | Some meta \<Rightarrow> [DIRegister c (scope meta) (name c)]) cs))
          \<and> (fst (register_controllers reg cs w1) = None \<longrightarrow>
             (\<forall>c \<in> set cs. getControllerOwnMeta c \<noteq> None) \<and> length cs \<le> k)" ..
      from kk have k: "calls (snd (register_controllers reg cs w1)) =
          calls w1 @ take k (concat (map (\<lambda>c. case getControllerOwnMeta c of None \<Rightarrow> []
                         | Some meta \<Rightarrow> [DIRegister c (scope meta) (name c)]) cs))" and kl: "fst (register_controllers reg cs w1) = None \<longrightarrow>
             (\<forall>c \<in> set cs. getControllerOwnMeta c \<noteq> None) \<and> length cs \<le> k"
        by simp_all
      from d None k kl c1 \<open>getControllerOwnMeta c = Some meta\<close>
      have "calls (snd (register_controllers reg (c # cs) w)) =
          calls w @ take (Suc k) (concat (map (\<lambda>c. case getControllerOwnMeta c of None \<Rightarrow> []
                         | Some meta \<Rightarrow> [DIRegister c (scope meta) (name c)]) (c # cs)))
        \<and> (fst (register_controllers reg (c # cs) w) = None \<longrightarrow>
             (\<forall>c \<in> set (c # cs). getControllerOwnMeta c \<noteq> None) \<and> length (c # cs) \<le> Suc k)"
        by simp
      then show ?thesis by (rule exI)
    qed
  qed
qed

lemma router_register_all_calls:
  "\<exists>k. calls (snd (snd (router_register_all cs r w))) = calls w @ take k (map RouterRegister cs)
        \<and> (fst (router_register_all cs r w) = None \<longrightarrow> length cs \<le> k)"
proof (induction cs arbitrary: r w)
  case Nil
  then show ?case by simp
next
  case (Cons c cs)
  obtain e r1 where d: "register c r = (e, r1)"
    by (cases "register c r")
  show ?case
  proof (cases e)
    case (Some err)
    with d have "calls (snd (snd (router_register_all (c # cs) r w))) =
          calls w @ take 1 (map RouterRegister (c # cs))
        \<and> (fst (router_register_all (c # cs) r w) = None \<longrightarrow> length (c # cs) \<le> 1)"
      by (simp add: Let_def calls_call)
    then show ?thesis by (rule exI)
  next
    case None
    from Cons.IH [of r1 "call (RouterRegister c) w"] obtain k where
      kk: "calls (snd (snd (router_register_all cs r1 (call (RouterRegister c) w)))) =
            calls (call (RouterRegister c) w) @ take k (map RouterRegister cs)
        \<and> (fst (router_register_all cs r1 (call (RouterRegister c) w)) = None \<longrightarrow> length cs \<le> k)" ..
    from kk have k: "calls (snd (snd (router_register_all cs r1 (call (RouterRegister c) w)))) =
            calls (call (RouterRegister c) w) @ take k (map RouterRegister cs)" and kl: "fst (router_register_all cs r1 (call (RouterRegister c) w)) = None \<longrightarrow> length cs \<le> k"
      by simp_all
    from d None k kl have "calls (snd (snd (router_register_all (c # cs) r w))) =
          calls w @ take (Suc k) (map RouterRegister (c # cs))
        \<and> (fst (router_register_all (c # cs) r w) = None \<longrightarrow> length (c # cs) \<le> Suc k)"
      by (simp add: Let_def calls_call)
    then show ?thesis by (rule exI)
  qed
qed

lemma DIContainer_register_obs:
  assumes "\<And>d n s k. obs (snd (reg d n s k)) = obs d"
  shows "obs (di (snd (DIContainer_register reg newable sc key w))) = obs (di w)"
  using assms [of "di (call (DIRegister newable sc key) w)" newable sc key]
  by (auto simp: DIContainer_register_def Let_def call_def split: prod.splits)

lemma register_injectables_obs:
  assumes "\<And>d n s k. obs (snd (reg d n s k)) = obs d"
  shows "obs (di (snd (register_injectables reg ns w))) = obs (di w)"
proof (induction ns arbitrary: w)
  case Nil
  then show ?case by simp
next
  case (Cons n ns)
  obtain e w1 where d: "DIContainer_register reg n (getInjectableMetadata n) (name n) w = (e, w1)"
    by (cases "DIContainer_register reg n (getInjectableMetadata n) (name n) w")
  with DIContainer_register_obs [of obs reg n "getInjectableMetadata n" "name n" w, OF assms]
  have o: "obs (di w1) = obs (di w)" by simp
  show ?case
  proof (cases e)
    case (Some err)
    with d o show ?thesis by (simp add: Let_def)
  next
    case None
    with d o Cons.IH [of w1] show ?thesis by (simp add: Let_def)
  qed
qed

lemma register_controllers_obs:
  assumes "\<And>d n s k. obs (snd (reg d n s k)) = obs d"
  shows "obs (di (snd (register_controllers reg cs w))) = obs (di w)"
proof (induction cs arbitrary: w)
  case Nil
  then show ?case by simp
next
  case (Cons c cs)
  show ?case
  proof (cases "getControllerOwnMeta c")
    case None
    then show ?thesis by simp
  next
    case (Some meta)
    obtain e w1 where d: "DIContainer_register reg c (scope meta) (name c) w = (e, w1)"
      by (cases "DIContainer_register reg c (scope meta) (name c) w")
    with DIContainer_register_obs [of obs reg c "scope meta" "name c" w, OF assms]
    have o: "obs (di w1) = obs (di w)" by simp
    show ?thesis
    proof (cases e)
      case (Some err)
      with d o \<open>getControllerOwnMeta c = Some meta\<close> show ?thesis by simp
    next
      case None
      with d o \<open>getControllerOwnMeta c = Some meta\<close> Cons.IH [of w1] show ?thesis by simp
    qed
  qed
qed

lemma router_register_all_di:
  "di (snd (snd (router_register_all cs r w))) = di w"
proof (induction cs arbitrary: r w)
  case Nil
  then show ?case by simp
next
  case (Cons c cs)
  obtain e r1 where d: "register c r = (e, r1)"
    by (cases "register c r")
  show ?case
  proof (cases e)
    case (Some err)
    with d show ?thesis by (simp add: Let_def call_def)
  next
    case None
    with d Cons.IH [of r1 "call (RouterRegister c) w"] show ?thesis
      by (simp add: Let_def call_def)
  qed
qed

lemma Application_new_obs:
  assumes "\<And>d n s k. obs (snd (reg d n s k)) = obs d"
  shows "obs (di (snd (Application_new reg cfg w))) = obs (di w)"
proof -
  obtain e1 w1 where i: "register_injectables reg (injectables cfg) w = (e1, w1)"
    by (cases "register_injectables reg (injectables cfg) w")
  with register_injectables_obs [of obs reg "injectables cfg" w, OF assms]
  have o1: "obs (di w1) = obs (di w)" by simp
  obtain e2 w2 where c: "register_controllers reg (controllers cfg) w1 = (e2, w2)"
    by (cases "register_controllers reg (controllers cfg) w1")
  with register_controllers_obs [of obs reg "controllers cfg" w1, OF assms] o1
  have o2: "obs (di w2) = obs (di w)" by simp
  obtain e3 r3 w3 where r: "router_register_all (controllers cfg) Router_new w2 = (e3, r3, w3)"
    by (cases "router_register_all (controllers cfg) Router_new w2")
  with router_register_all_di [of "controllers cfg" Router_new w2] o2
  have o3: "obs (di w3) = obs (di w)" by simp
  show ?thesis
    using i c r o1 o2 o3
    by (cases e1; cases e2; cases e3) (simp_all add: Application_new_def)
qed

lemma DIContainer_register_spec_instantiated:
  "instantiated (snd (DIContainer_register_spec d n s k)) = instantiated d"
  by (simp add: DIContainer_register_spec_def)

lemma no_instantiate_in_constructor_calls:
  "DIInstantiateAllSingletons \<notin> set (constructor_calls cfg)"
  by (auto simp: constructor_calls_def split: option.splits)

lemma concat_all_meta:
  "\<forall>c \<in> set cs. getControllerOwnMeta c \<noteq> None \<Longrightarrow>
   concat (map (\<lambda>c. case getControllerOwnMeta c of None \<Rightarrow> []
                         | Some meta \<Rightarrow> [DIRegister c (scope meta) (name c)]) cs)
   = map (\<lambda>c. DIRegister c (scope (the (getControllerOwnMeta c))) (name c)) cs"
  by (induction cs) auto

lemma take_min_append: "take k xs = take (min k (length xs)) (xs @ ys)"
  by (cases "k \<le> length xs") (simp_all add: min_def)

lemma take_append_right: "xs @ take k ys = take (length xs + k) (xs @ ys)"
  by simp

text \<open>
  Claim C6. The calls the constructor makes are a prefix of: \<open>DIContainer.register\<close> of
  every injectable in list order, under its class name and with its declared scope; then
  \<open>DIContainer.register\<close> of every controller, under its class name and with the scope of
  its metadata; then \<open>Router.register\<close> of every controller. When the constructor returns
  an application, every controller has metadata and the calls made are the whole sequence;
  so each call of \<open>Router.register\<close> comes after all calls of \<open>DIContainer.register\<close>.
  No instantiation occurs: the constructor never calls \<open>instantiateAllSingletons\<close>, it
  touches the DI container through \<open>DIContainer.register\<close> only (whatever part of the
  container's state \<open>register\<close> leaves alone is the same after the constructor as before,
  whether it returns or throws), and with \<open>register\<close> as the specification describes it
  the instances the container holds after the constructor are those it held before.
\<close>

theorem Application_new_registration_order:
  "(\<exists>k. calls (snd (Application_new reg cfg w)) = calls w @ take k (constructor_calls cfg))
   \<and> DIInstantiateAllSingletons \<notin> set (constructor_calls cfg)
   \<and> (\<forall>a. fst (Application_new reg cfg w) = Inr a \<longrightarrow>
         (\<forall>c \<in> set (controllers cfg). getControllerOwnMeta c \<noteq> None)
         \<and> calls (snd (Application_new reg cfg w)) =
             calls w
             @ map (\<lambda>n. DIRegister n (getInjectableMetadata n) (name n)) (injectables cfg)
             @ map (\<lambda>c. DIRegister c (scope (the (getControllerOwnMeta c))) (name c)) (controllers cfg)
             @ map RouterRegister (controllers cfg))
   \<and> ((\<forall>d n s k. obs (snd (reg d n s k)) = obs d)
        \<longrightarrow> obs (di (snd (Application_new reg cfg w))) = obs (di w))
   \<and> instantiated (di (snd (Application_new DIContainer_register_spec cfg wd)))
       = instantiated (di wd)"
proof -
  have g: "(\<forall>d n s k. obs (snd (reg d n s k)) = obs d)
        \<longrightarrow> obs (di (snd (Application_new reg cfg w))) = obs (di w)"
  proof (intro impI)
    assume a: "\<forall>d n s k. obs (snd (reg d n s k)) = obs d"
    show "obs (di (snd (Application_new reg cfg w))) = obs (di w)"
      by (rule Application_new_obs) (simp add: a)
  qed
  have sp: "instantiated (di (snd (Application_new DIContainer_register_spec cfg wd)))
       = instantiated (di wd)"
    by (rule Application_new_obs) (rule DIContainer_register_spec_instantiated)
  let ?A = "map (\<lambda>n. DIRegister n (getInjectableMetadata n) (name n)) (injectables cfg)"
  let ?B = "concat (map (\<lambda>c. case getControllerOwnMeta c of None \<Rightarrow> []
                         | Some meta \<Rightarrow> [DIRegister c (scope meta) (name c)]) (controllers cfg))"
  let ?C = "map RouterRegister (controllers cfg)"
  have full: "constructor_calls cfg = ?A @ ?B @ ?C"
    by (simp add: constructor_calls_def)
  obtain e1 w1 where i: "register_injectables reg (injectables cfg) w = (e1, w1)"
    by (cases "register_injectables reg (injectables cfg) w")
  from register_injectables_calls [of reg "injectables cfg" w] i
  obtain k1 where k1: "calls w1 = calls w @ take k1 ?A"
    and k1l: "e1 = None \<longrightarrow> length (injectables cfg) \<le> k1"
    by auto
  obtain e2 w2 where c: "register_controllers reg (controllers cfg) w1 = (e2, w2)"
    by (cases "register_controllers reg (controllers cfg) w1")
  from register_controllers_calls [of reg "controllers cfg" w1] c
  obtain k2 where k2: "calls w2 = calls w1 @ take k2 ?B"
    and k2l: "e2 = None \<longrightarrow> (\<forall>c \<in> set (controllers cfg). getControllerOwnMeta c \<noteq> None)
                \<and> length (controllers cfg) \<le> k2"
    by auto
  obtain e3 r3 w3 where r: "router_register_all (controllers cfg) Router_new w2 = (e3, r3, w3)"
    by (cases "router_register_all (controllers cfg) Router_new w2")
  from router_register_all_calls [of "controllers cfg" Router_new w2] r
  obtain k3 where k3: "calls w3 = calls w2 @ take k3 ?C"
    and k3l: "e3 = None \<longrightarrow> length (controllers cfg) \<le> k3"
    by auto
  let ?T = "\<forall>a. fst (Application_new reg cfg w) = Inr a \<longrightarrow>
         (\<forall>c \<in> set (controllers cfg). getControllerOwnMeta c \<noteq> None)
         \<and> calls (snd (Application_new reg cfg w)) =
             calls w
             @ map (\<lambda>n. DIRegister n (getInjectableMetadata n) (name n)) (injectables cfg)
             @ map (\<lambda>c. DIRegister c (scope (the (getControllerOwnMeta c))) (name c)) (controllers cfg)
             @ map RouterRegister (controllers cfg)"
  have ni: "DIInstantiateAllSingletons \<notin> set (constructor_calls cfg)"
    by (rule no_instantiate_in_constructor_calls)
  show ?thesis
  proof (cases e1)
    case (Some err)
    with i have res: "Application_new reg cfg w = (Inl err, w1)"
      by (simp add: Application_new_def)
    have "take k1 ?A = take (min k1 (length ?A)) (?A @ ?B @ ?C)"
      by (rule take_min_append)
    with k1 full res
    have "calls (snd (Application_new reg cfg w))
        = calls w @ take (min k1 (length ?A)) (constructor_calls cfg)"
      by simp
    then have ex: "\<exists>k. calls (snd (Application_new reg cfg w)) = calls w @ take k (constructor_calls cfg)"
      by (rule exI)
    have t: ?T using res by simp
    show ?thesis by (intro conjI ex ni t g sp)
  next
    case None
    note e1 = None
    with k1 k1l have w1: "calls w1 = calls w @ ?A" by simp
    show ?thesis
    proof (cases e2)
      case (Some err)
      with i c e1 have res: "Application_new reg cfg w = (Inl err, w2)"
        by (simp add: Application_new_def)
      have "take k2 ?B = take (min k2 (length ?B)) (?B @ ?C)"
        by (rule take_min_append)
      moreover have "?A @ take (min k2 (length ?B)) (?B @ ?C)
          = take (length ?A + min k2 (length ?B)) (?A @ ?B @ ?C)"
        by (rule take_append_right)
      ultimately have "calls (snd (Application_new reg cfg w))
          = calls w @ take (length ?A + min k2 (length ?B)) (constructor_calls cfg)"
        using k2 w1 full res by simp
      then have ex: "\<exists>k. calls (snd (Application_new reg cfg w)) = calls w @ take k (constructor_calls cfg)"
        by (rule exI)
      have t: ?T using res by simp
      show ?thesis by (intro conjI ex ni t g sp)
    next
      case None
      note e2 = None
      with k2l have allmeta: "\<forall>c \<in> set (controllers cfg). getControllerOwnMeta c \<noteq> None"
        and k2len: "length (controllers cfg) \<le> k2" by simp_all
      have B: "?B = map (\<lambda>c. DIRegister c (scope (the (getControllerOwnMeta c))) (name c)) (controllers cfg)"
        by (rule concat_all_meta [OF allmeta])
      then have lenB: "length ?B = length (controllers cfg)"
        by simp
      with k2 w1 k2len have w2: "calls w2 = calls w @ ?A @ ?B" by simp
      show ?thesis
      proof (cases e3)
        case (Some err)
        with i c r e1 e2 have res: "Application_new reg cfg w = (Inl err, w3)"
          by (simp add: Application_new_def)
        have "(?A @ ?B) @ take k3 ?C = take (length (?A @ ?B) + k3) ((?A @ ?B) @ ?C)"
          by (rule take_append_right)
        with k3 w2 full res
        have "calls (snd (Application_new reg cfg w))
            = calls w @ take (length (?A @ ?B) + k3) (constructor_calls cfg)"
          by simp
        then have ex: "\<exists>k. calls (snd (Application_new reg cfg w)) = calls w @ take k (constructor_calls cfg)"
          by (rule exI)
        have t: ?T using res by simp
        show ?thesis by (intro conjI ex ni t g sp)
      next
        case None
        with i c r e1 e2 have res: "Application_new reg cfg w = (Inr \<lparr>router = r3, middleware = []\<rparr>, w3)"
          by (simp add: Application_new_def)
        from None k3 k3l w2 have w3: "calls w3 = calls w @ ?A @ ?B @ ?C" by simp
        with res full
        have "calls (snd (Application_new reg cfg w))
            = calls w @ take (length (constructor_calls cfg)) (constructor_calls cfg)"
          by simp
        then have ex: "\<exists>k. calls (snd (Application_new reg cfg w)) = calls w @ take k (constructor_calls cfg)"
          by (rule exI)
        from w3 B have "calls w3 = calls w @ ?A
            @ map (\<lambda>c. DIRegister c (scope (the (getControllerOwnMeta c))) (name c)) (controllers cfg)
            @ ?C"
          by simp
        with res allmeta have t: ?T by simp
        show ?thesis by (intro conjI ex ni t g sp)
      qed
    qed
  qed
qed

text \<open>Claim C6 at the example configuration, one injectable and one controller, with the
  container of the specification: both are registered, nothing is instantiated by the
  constructor, and \<open>instantiateAllSingletons\<close> afterwards constructs both singletons.\<close>

theorem Application_new_registration_order_witness:
  "fst (Application_new DIContainer_register_spec exampleConfig containerWorld)
     = Inr (projr (fst (Application_new DIContainer_register_spec exampleConfig containerWorld)))
   \<and> (\<forall>d n s k. instantiated (snd (DIContainer_register_spec d n s k)) = instantiated d)
   \<and> calls (snd (Application_new DIContainer_register_spec exampleConfig containerWorld))
     = [DIRegister dinosaurService SINGLETON ''DinosaurService'',
        DIRegister dinosaursController SINGLETON ''DinosaurController'',
        RouterRegister dinosaursController]
   \<and> instantiated (di (snd (Application_new DIContainer_register_spec exampleConfig containerWorld))) = []
   \<and> registry (di (snd (Application_new DIContainer_register_spec exampleConfig containerWorld)))
     = [(''DinosaurService'', \<lparr>typeId = dinosaurService, injection_scope = SINGLETON\<rparr>),
        (''DinosaurController'', \<lparr>typeId = dinosaursController, injection_scope = SINGLETON\<rparr>)]
   \<and> instantiated (snd (DIContainer_instantiateAllSingletons_spec
         (di (snd (Application_new DIContainer_register_spec exampleConfig containerWorld)))))
     = [dinosaurService, dinosaursController]"
proof -
  have ne: "dinosaursController \<noteq> dinosaurService"
    by (simp add: dinosaursController_def dinosaurService_def)
  have nm: "name dinosaurService = ''DinosaurService''" "name dinosaursController = ''DinosaurController''"
    "getInjectableMetadata dinosaurService = SINGLETON"
    "getControllerOwnMeta dinosaursController = Some (the (controllerOwnMeta dinosaursController))"
    "scope (the (controllerOwnMeta dinosaursController)) = SINGLETON"
    by (simp_all add: getControllerOwnMeta_def dinosaursController_def getInjectableMetadata_def
        dinosaurService_def)
  have i: "register_injectables DIContainer_register_spec (injectables exampleConfig) containerWorld
      = (None, \<lparr>di = \<lparr>registry = [(''DinosaurService'',
                            \<lparr>typeId = dinosaurService, injection_scope = SINGLETON\<rparr>)],
                         instantiated = []\<rparr>,
                 calls = [DIRegister dinosaurService SINGLETON ''DinosaurService'']\<rparr>)"
    by (simp add: exampleConfig_def containerWorld_def DIContainer_new_def DIContainer_register_def
        DIContainer_register_spec_def call_def Let_def nm)
  have c: "register_controllers DIContainer_register_spec (controllers exampleConfig)
        \<lparr>di = \<lparr>registry = [(''DinosaurService'',
                            \<lparr>typeId = dinosaurService, injection_scope = SINGLETON\<rparr>)],
                 instantiated = []\<rparr>,
         calls = [DIRegister dinosaurService SINGLETON ''DinosaurService'']\<rparr>
      = (None, \<lparr>di = \<lparr>registry =
                   [(''DinosaurService'', \<lparr>typeId = dinosaurService, injection_scope = SINGLETON\<rparr>),
                    (''DinosaurController'', \<lparr>typeId = dinosaursController, injection_scope = SINGLETON\<rparr>)],
                         instantiated = []\<rparr>,
                 calls = [DIRegister dinosaurService SINGLETON ''DinosaurService'',
                          DIRegister dinosaursController SINGLETON ''DinosaurController'']\<rparr>)"
    by (simp add: exampleConfig_def DIContainer_register_def DIContainer_register_spec_def call_def
        Let_def nm ne)
  have rf: "fst (register dinosaursController Router_new) = None"
    by (simp add: register_fst nm)
  obtain r1 where r: "register dinosaursController Router_new = (None, r1)"
    using rf by (cases "register dinosaursController Router_new") simp
  have res: "Application_new DIContainer_register_spec exampleConfig containerWorld
      = (Inr \<lparr>router = r1, middleware = []\<rparr>,
         \<lparr>di = \<lparr>registry =
                   [(''DinosaurService'', \<lparr>typeId = dinosaurService, injection_scope = SINGLETON\<rparr>),
                    (''DinosaurController'', \<lparr>typeId = dinosaursController, injection_scope = SINGLETON\<rparr>)],
                 instantiated = []\<rparr>,
          calls = [DIRegister dinosaurService SINGLETON ''DinosaurService'',
                   DIRegister dinosaursController SINGLETON ''DinosaurController'',
                   RouterRegister dinosaursController]\<rparr>)"
    using r by (simp add: Application_new_def i c) (simp add: exampleConfig_def call_def Let_def)
  have a: "fst (Application_new DIContainer_register_spec exampleConfig containerWorld)
      = Inr (projr (fst (Application_new DIContainer_register_spec exampleConfig containerWorld)))"
    by (simp add: res)
  have p: "\<forall>d n s k. instantiated (snd (DIContainer_register_spec d n s k)) = instantiated d"
    by (simp add: DIContainer_register_spec_def)
  have ew: "calls containerWorld = []" "instantiated (di containerWorld) = []"
    by (simp_all add: containerWorld_def DIContainer_new_def)
  note at_example = Application_new_registration_order [of DIContainer_register_spec exampleConfig
      containerWorld instantiated containerWorld]
  from at_example a
  have cl: "calls (snd (Application_new DIContainer_register_spec exampleConfig containerWorld)) =
             calls containerWorld
             @ map (\<lambda>n. DIRegister n (getInjectableMetadata n) (name n)) (injectables exampleConfig)
             @ map (\<lambda>c. DIRegister c (scope (the (getControllerOwnMeta c))) (name c)) (controllers exampleConfig)
             @ map RouterRegister (controllers exampleConfig)"
    by blast
  from at_example p
  have ins: "instantiated (di (snd (Application_new DIContainer_register_spec exampleConfig containerWorld)))
      = instantiated (di containerWorld)"
    by blast
  have c1: "calls (snd (Application_new DIContainer_register_spec exampleConfig containerWorld))
     = [DIRegister dinosaurService SINGLETON ''DinosaurService'',
        DIRegister dinosaursController SINGLETON ''DinosaurController'',
        RouterRegister dinosaursController]"
    using cl by (simp add: ew exampleConfig_def nm)
  have c2: "instantiated (di (snd (Application_new DIContainer_register_spec exampleConfig containerWorld))) = []"
    using ins by (simp add: ew)
  have c3: "registry (di (snd (Application_new DIContainer_register_spec exampleConfig containerWorld)))
     = [(''DinosaurService'', \<lparr>typeId = dinosaurService, injection_scope = SINGLETON\<rparr>),
        (''DinosaurController'', \<lparr>typeId = dinosaursController, injection_scope = SINGLETON\<rparr>)]"
    by (simp add: res)
  have c4: "instantiated (snd (DIContainer_instantiateAllSingletons_spec
         (di (snd (Application_new DIContainer_register_spec exampleConfig containerWorld)))))
     = [dinosaurService, dinosaursController]"
    by (simp add: res DIContainer_instantiateAllSingletons_spec_def)
  show ?thesis
    by (intro conjI a p c1 c2 c3 c4)
qed

text \<open>
  Claim C8. A controller with prefix \<open>/dinosaurs\<close> whose first route is GET \<open>/\<close> is
  registered with a new router. For a request GET \<open>/dinosaurs\<close>, when no before-hook
  short-circuits and the route's action returns an array of three records without setting
  a status, \<open>execute\<close> gives the result with status 200 and that array as body, and the
  dispatcher writes them to the response. \<open>DinosaurService.getAll\<close> returns the service's
  array of three dinosaurs as it is.
\<close>

theorem get_dinosaurs_end_to_end:
  "getControllerOwnMeta c = Some meta \<Longrightarrow>
   prefix meta = PrefixString ''/dinosaurs'' \<Longrightarrow>
   routes meta = route # rest \<Longrightarrow>
   path route = ''/'' \<Longrightarrow> requestMethod route = GET \<Longrightarrow>
   request_method (request ctx) = GET \<Longrightarrow>
   request_path (request ctx) = ''/dinosaurs'' \<Longrightarrow>
   run_beforeHooks (hooks route) ctx = None \<Longrightarrow>
   actions (name c) (methodName route) ctx = Returned (JArr records) None \<Longrightarrow>
   length records = 3 \<Longrightarrow>
   ExecutionContainer_execute hooks actions (ExecutionContainer_new meta (name c)) route ctx
     = (Inr \<lparr>ExecutionResult.body = JArr records, status = 200\<rparr>, ctx)
   \<and> dispatch (ExecutionContainer_execute hooks actions) (snd (register c Router_new)) ctx
     = (None, ctx\<lparr>response := set_status 200 (set_body (JArr records) (response ctx))\<rparr>)
   \<and> getAll DinosaurService_new =
       [JObj [(''id'', JNum 0), (''name'', JStr ''Tyrannosaurus Rex''), (''period'', JStr ''Maastrichtian'')],
        JObj [(''id'', JNum 1), (''name'', JStr ''Velociraptor''), (''period'', JStr ''Cretaceous'')],
        JObj [(''id'', JNum 2), (''name'', JStr ''Diplodocus''), (''period'', JStr ''Oxfordian'')]]
   \<and> length (getAll DinosaurService_new) = 3"
proof -
  assume m: "getControllerOwnMeta c = Some meta"
    and p: "prefix meta = PrefixString ''/dinosaurs''"
    and rs: "routes meta = route # rest"
    and rp: "path route = ''/''" and rm: "requestMethod route = GET"
    and qm: "request_method (request ctx) = GET"
    and qp: "request_path (request ctx) = ''/dinosaurs''"
    and h: "run_beforeHooks (hooks route) ctx = None"
    and a: "actions (name c) (methodName route) ctx = Returned (JArr records) None"
  have e: "ExecutionContainer_execute hooks actions (ExecutionContainer_new meta (name c)) route ctx
     = (Inr \<lparr>ExecutionResult.body = JArr records, status = 200\<rparr>, ctx)"
    using h a
    by (simp add: ExecutionContainer_execute_def ExecutionContainer_new_def translate_outcome_def)
  have n: "normalizedPath (js_String (prefix meta)) (path route) = ''/dinosaurs''"
    by (simp add: p rp js_String_def normalizedPath_eq)
  have s: "stack (snd (register c Router_new)) =
      \<lparr>layer_method = GET, layer_path = ''/dinosaurs'',
        layer_container = ExecutionContainer_new meta (name c), layer_route = route\<rparr>
      # map (\<lambda>route. \<lparr>layer_method = requestMethod route,
                       layer_path = normalizedPath (js_String (prefix meta)) (path route),
                       layer_container = ExecutionContainer_new meta (name c),
                       layer_route = route\<rparr>) rest"
    by (simp add: register_stack [OF m] rs rm n Router_new_def)
  have d: "dispatch (ExecutionContainer_execute hooks actions) (snd (register c Router_new)) ctx
     = (None, ctx\<lparr>response := set_status 200 (set_body (JArr records) (response ctx))\<rparr>)"
    by (simp add: dispatch_def s qm qp handler_def e)
  have g: "getAll DinosaurService_new =
       [JObj [(''id'', JNum 0), (''name'', JStr ''Tyrannosaurus Rex''), (''period'', JStr ''Maastrichtian'')],
        JObj [(''id'', JNum 1), (''name'', JStr ''Velociraptor''), (''period'', JStr ''Cretaceous'')],
        JObj [(''id'', JNum 2), (''name'', JStr ''Diplodocus''), (''period'', JStr ''Oxfordian'')]]"
    by (simp add: getAll_def DinosaurService_new_def)
  from e d g show ?thesis by simp
qed

text \<open>Claim C8 at the example controller, whose action returns \<open>DinosaurService.getAll()\<close>.\<close>

theorem get_dinosaurs_end_to_end_witness:
  "getControllerOwnMeta dinosaursController = Some (the (controllerOwnMeta dinosaursController))
   \<and> exampleActions (name dinosaursController) ''getDinosaurs'' exampleContext
       = Returned (JArr (getAll DinosaurService_new)) None
   \<and> length (getAll DinosaurService_new) = 3
   \<and> dispatch exampleExecute (snd (register dinosaursController Router_new)) exampleContext
       = (None,
          \<lparr>request = \<lparr>request_method = GET, request_path = ''/dinosaurs''\<rparr>,
           response = \<lparr>Response.status = 200, body = JArr (getAll DinosaurService_new),
                       writes = [WriteBody (JArr (getAll DinosaurService_new)), WriteStatus 200]\<rparr>\<rparr>)"
proof -
  have m: "getControllerOwnMeta dinosaursController = Some (the (controllerOwnMeta dinosaursController))"
    by (simp add: getControllerOwnMeta_def dinosaursController_def)
  have a: "exampleActions (name dinosaursController) ''getDinosaurs'' exampleContext
      = Returned (JArr (getAll DinosaurService_new)) None"
    by (simp add: exampleActions_def dinosaursController_def)
  have l: "length (getAll DinosaurService_new) = 3"
    by (simp add: getAll_def DinosaurService_new_def)
  from get_dinosaurs_end_to_end [where c = dinosaursController
      and meta = "the (controllerOwnMeta dinosaursController)"
      and route = "\<lparr>path = ''/'', requestMethod = GET, methodName = ''getDinosaurs''\<rparr>"
      and rest = "[\<lparr>path = ''/:id'', requestMethod = GET, methodName = ''getById''\<rparr>]"
      and ctx = exampleContext and hooks = "\<lambda>route. []" and actions = exampleActions
      and records = "getAll DinosaurService_new", OF m]
  have "dispatch (ExecutionContainer_execute (\<lambda>route. []) exampleActions)
          (snd (register dinosaursController Router_new)) exampleContext
     = (None, exampleContext\<lparr>response :=
          set_status 200 (set_body (JArr (getAll DinosaurService_new)) (response exampleContext))\<rparr>)"
    using a l by (simp add: dinosaursController_def exampleContext_def)
  then have "dispatch exampleExecute (snd (register dinosaursController Router_new)) exampleContext
       = (None,
          \<lparr>request = \<lparr>request_method = GET, request_path = ''/dinosaurs''\<rparr>,
           response = \<lparr>Response.status = 200, body = JArr (getAll DinosaurService_new),
                       writes = [WriteBody (JArr (getAll DinosaurService_new)), WriteStatus 200]\<rparr>\<rparr>)"
    by (simp add: exampleExecute_def exampleContext_def set_status_def set_body_def)
  with m a l show ?thesis
    by (intro conjI)
qed

text \<open>
  Claim C9. For every string, \<open>DinosaurService.getById\<close> returns a value: the element of the
  array of dinosaurs at index \<open>parseInt(id, 10)\<close> when that is an integer from 0 to 2, and
  \<open>undefined\<close> otherwise (also when \<open>parseInt\<close> gives \<open>NaN\<close>). It has no failing case.
\<close>

theorem getById_total:
  "getById DinosaurService_new ident =
     (case parseInt ident 10 of
        NaN \<Rightarrow> JUndefined
      | Num i \<Rightarrow> if 0 \<le> i \<and> i \<le> 2 then getAll DinosaurService_new ! nat i else JUndefined)
   \<and> getById DinosaurService_new ''1''
       = JObj [(''id'', JNum 1), (''name'', JStr ''Velociraptor''), (''period'', JStr ''Cretaceous'')]
   \<and> getById DinosaurService_new ''3'' = JUndefined
   \<and> getById DinosaurService_new ''-1'' = JUndefined
   \<and> getById DinosaurService_new ''rex'' = JUndefined
   \<and> getById DinosaurService_new [] = JUndefined"
proof (intro conjI)
  show "getById DinosaurService_new ident =
     (case parseInt ident 10 of
        NaN \<Rightarrow> JUndefined
      | Num i \<Rightarrow> if 0 \<le> i \<and> i \<le> 2 then getAll DinosaurService_new ! nat i else JUndefined)"
    by (simp add: getById_def getAll_def array_get_def DinosaurService_new_def split: js_number.splits)
qed (simp_all add: getById_def DinosaurService_new_def array_get_def parseInt_def Let_def
       isWhiteSpace_def isRadixDigit_def digitValue_def radixValue_def)

end
